theory Spec2Isabelle
  imports Complex_Main "HOL-Library.Multiset"
begin

section \<open>Values\<close>

text \<open>
  A Python float (and a PostgreSQL double precision column) is modelled by the real number
  it denotes, or by one of the three non-finite values. Arithmetic on finite values is
  exact in the model: rounding error and overflow of binary floating point are outside it.
\<close>

datatype pyfloat = Finite real | PosInf | NegInf | NaN

text \<open>The value of \<^verbatim>\<open>resp.json()\<close>: a parsed JSON document. An object is a Python dict.\<close>

datatype json =
    JNull
  | JBool bool
  | JInt int
  | JFloat pyfloat
  | JStr string
  | JList "json list"
  | JObj "(string \<times> json) list"

text \<open>
  Every way the handlers of \<^verbatim>\<open>main.py\<close> can fail: the two \<^verbatim>\<open>HTTPException\<close>s they raise
  themselves, the exceptions of the Python operations they use, and a failure of the HTTP
  call to the geocoding provider (\<open>TransportError\<close>) or of decoding its body
  (\<open>JSONDecodeError\<close>).
\<close>

datatype error =
    HTTPException nat string
  | KeyError string
  | TypeError
  | ValueError
  | IndexError
  | TransportError
  | JSONDecodeError

text \<open>Python truthiness of a JSON value, as \<^verbatim>\<open>not results\<close> reads it.\<close>

fun truthy :: "json \<Rightarrow> bool" where
  "truthy JNull = False"
| "truthy (JBool b) = b"
| "truthy (JInt i) = (i \<noteq> 0)"
| "truthy (JFloat x) = (x \<noteq> Finite 0)"
| "truthy (JStr s) = (s \<noteq> [])"
| "truthy (JList xs) = (xs \<noteq> [])"
| "truthy (JObj kvs) = (kvs \<noteq> [])"

text \<open>\<^verbatim>\<open>isinstance(results, list)\<close>.\<close>

fun isinstance_list :: "json \<Rightarrow> bool" where
  "isinstance_list (JList xs) = True"
| "isinstance_list _ = False"

text \<open>
  \<^verbatim>\<open>results[0]\<close>: the first element of a list, the first character of a string, the value
  under the key 0 of a dict (a parsed JSON object has only string keys, so there is none).
\<close>

fun getitem_0 :: "json \<Rightarrow> error + json" where
  "getitem_0 (JList (x # xs)) = Inr x"
| "getitem_0 (JList []) = Inl IndexError"
| "getitem_0 (JStr (c # cs)) = Inr (JStr [c])"
| "getitem_0 (JStr []) = Inl IndexError"
| "getitem_0 (JObj kvs) = Inl (KeyError ''0'')"
| "getitem_0 _ = Inl TypeError"

text \<open>
  \<^verbatim>\<open>first[k]\<close> with a string key: only a dict can be subscripted by a string. The list of a
  \<open>JObj\<close> holds each key once, as a dict does.
\<close>

fun getitem :: "json \<Rightarrow> string \<Rightarrow> error + json" where
  "getitem (JObj kvs) k = (case map_of kvs k of None \<Rightarrow> Inl (KeyError k) | Some v \<Rightarrow> Inr v)"
| "getitem _ k = Inl TypeError"

text \<open>
  The builtin \<^verbatim>\<open>float(v)\<close>. Parsing the text of a string is the interpreter's work and is
  taken as the parameter \<open>float_of_str\<close>, which gives \<open>None\<close> where Python raises
  \<^verbatim>\<open>ValueError\<close>.
\<close>

fun py_float :: "(string \<Rightarrow> pyfloat option) \<Rightarrow> json \<Rightarrow> error + pyfloat" where
  "py_float float_of_str (JStr s) =
     (case float_of_str s of None \<Rightarrow> Inl ValueError | Some x \<Rightarrow> Inr x)"
| "py_float float_of_str (JFloat x) = Inr x"
| "py_float float_of_str (JInt i) = Inr (Finite (of_int i))"
| "py_float float_of_str (JBool b) = Inr (Finite (if b then 1 else 0))"
| "py_float float_of_str JNull = Inl TypeError"
| "py_float float_of_str (JList xs) = Inl TypeError"
| "py_float float_of_str (JObj kvs) = Inl TypeError"

text \<open>\<^verbatim>\<open>str.lower()\<close> on ASCII text.\<close>

definition lower_char :: "char \<Rightarrow> char" where
  "lower_char c =
     (case map_of (zip ''ABCDEFGHIJKLMNOPQRSTUVWXYZ'' ''abcdefghijklmnopqrstuvwxyz'') c of
        None \<Rightarrow> c
      | Some l \<Rightarrow> l)"

definition lower :: "string \<Rightarrow> string" where
  "lower s = map lower_char s"

text \<open>
  \<^verbatim>\<open>round(x, nd)\<close> gives the multiple of \<open>10 ^ -nd\<close> nearest to \<open>x\<close>. Where the real value
  lies exactly halfway between two multiples, the binary double that holds it decides: the
  double is the halfway value itself and the result is the even neighbour
  (\<^verbatim>\<open>round(0.125, 2)\<close> is 0.12, \<^verbatim>\<open>round(0.375, 2)\<close> is 0.38), or it lies to one side of it
  (1.015 is held just below, and \<^verbatim>\<open>round(1.015, 2)\<close> is 1.01). The double is outside the
  model, so the direction at a halfway value is the parameter \<open>ties_up\<close>.
\<close>

definition round_nearest :: "bool \<Rightarrow> real \<Rightarrow> int" where
  "round_nearest up y =
     (let f = \<lfloor>y\<rfloor>; d = y - of_int f
      in if d < 1 / 2 then f
         else if 1 / 2 < d then f + 1
         else if up then f + 1 else f)"

definition py_round :: "(real \<Rightarrow> bool) \<Rightarrow> real \<Rightarrow> nat \<Rightarrow> real" where
  "py_round ties_up x nd = of_int (round_nearest (ties_up x) (x * 10 ^ nd)) / 10 ^ nd"

section \<open>The Property table\<close>

text \<open>
  A point geometry with its spatial reference system. \<^verbatim>\<open>WKTElement(f'POINT({lon} {lat})',
  srid=4326)\<close> is the point \<open>(lon, lat)\<close> in SRID 4326; \<^verbatim>\<open>ST_MakePoint(lon, lat)\<close> is the
  same point with no SRID (0).
\<close>

record geometry =
  geom_x :: pyfloat
  geom_y :: pyfloat
  srid :: nat

definition WKTElement_POINT :: "pyfloat \<Rightarrow> pyfloat \<Rightarrow> nat \<Rightarrow> geometry" where
  "WKTElement_POINT lon lat s = \<lparr>geom_x = lon, geom_y = lat, srid = s\<rparr>"

definition ST_MakePoint :: "pyfloat \<Rightarrow> pyfloat \<Rightarrow> geometry" where
  "ST_MakePoint lon lat = \<lparr>geom_x = lon, geom_y = lat, srid = 0\<rparr>"

record Property =
  property_id :: int
  name :: string
  address :: string
  latitude :: pyfloat
  longitude :: pyfloat
  location :: geometry

record PropertyCreate =
  pc_name :: string
  pc_address :: string
  pc_latitude :: pyfloat
  pc_longitude :: pyfloat

text \<open>
  The database session: the rows of the table in the store's order, and the sequence that
  assigns the next primary key.
\<close>

record db =
  rows :: "Property list"
  next_id :: int

text \<open>\<^verbatim>\<open>db.query(Property).filter(Property.id == property_id).first()\<close>\<close>

definition query_first :: "db \<Rightarrow> int \<Rightarrow> Property option" where
  "query_first d pid = find (\<lambda>p. property_id p = pid) (rows d)"

definition not_found :: error where
  "not_found = HTTPException 404 ''Property not found''"

definition create_property :: "PropertyCreate \<Rightarrow> db \<Rightarrow> (error + Property) \<times> db" where
  "create_property prop d =
     (let point = WKTElement_POINT (pc_longitude prop) (pc_latitude prop) 4326;
          db_prop = \<lparr>property_id = next_id d,
                     name = pc_name prop,
                     address = pc_address prop,
                     latitude = pc_latitude prop,
                     longitude = pc_longitude prop,
                     location = point\<rparr>
      in (Inr db_prop, d\<lparr>rows := rows d @ [db_prop], next_id := next_id d + 1\<rparr>))"

definition list_properties :: "db \<Rightarrow> (error + Property list) \<times> db" where
  "list_properties d = (Inr (rows d), d)"

definition get_property :: "int \<Rightarrow> db \<Rightarrow> (error + Property) \<times> db" where
  "get_property pid d =
     (case query_first d pid of
        None \<Rightarrow> (Inl not_found, d)
      | Some prop \<Rightarrow> (Inr prop, d))"

definition update_property :: "int \<Rightarrow> PropertyCreate \<Rightarrow> db \<Rightarrow> (error + Property) \<times> db" where
  "update_property pid prop_in d =
     (case query_first d pid of
        None \<Rightarrow> (Inl not_found, d)
      | Some db_prop \<Rightarrow>
          (let db_prop' = db_prop\<lparr>name := pc_name prop_in,
                                  address := pc_address prop_in,
                                  latitude := pc_latitude prop_in,
                                  longitude := pc_longitude prop_in,
                                  location := WKTElement_POINT (pc_longitude prop_in)
                                                (pc_latitude prop_in) 4326\<rparr>
           in (Inr db_prop',
               d\<lparr>rows := map (\<lambda>p. if property_id p = pid then db_prop' else p) (rows d)\<rparr>)))"

definition delete_property :: "int \<Rightarrow> db \<Rightarrow> (error + unit) \<times> db" where
  "delete_property pid d =
     (case query_first d pid of
        None \<Rightarrow> (Inl not_found, d)
      | Some db_prop \<Rightarrow>
          (Inr (), d\<lparr>rows := filter (\<lambda>p. property_id p \<noteq> pid) (rows d)\<rparr>))"

section \<open>Geocoding with the cache\<close>

text \<open>
  What \<^verbatim>\<open>geocode_location\<close> reads and writes outside the database: the Redis keys with
  their values and expiry times, the clock in seconds, and the log of the queries sent to
  the geocoding provider. A cached value is the JSON text of a two-element list of floats,
  which \<^verbatim>\<open>json.loads\<close> reads back as written by \<^verbatim>\<open>json.dumps\<close>: the model keeps the pair.
  Such a text is never empty, so \<^verbatim>\<open>if cached\<close> holds exactly when the key is there and has
  not expired.
\<close>

record geo =
  cache :: "string \<rightharpoonup> ((pyfloat \<times> pyfloat) \<times> nat)"
  now :: nat
  calls :: "string list"

definition redis_get :: "geo \<Rightarrow> string \<Rightarrow> (pyfloat \<times> pyfloat) option" where
  "redis_get st key =
     (case cache st key of
        None \<Rightarrow> None
      | Some (v, expires) \<Rightarrow> if now st < expires then Some v else None)"

definition redis_set :: "geo \<Rightarrow> string \<Rightarrow> pyfloat \<times> pyfloat \<Rightarrow> nat \<Rightarrow> geo" where
  "redis_set st key v ex = st\<lparr>cache := (cache st)(key \<mapsto> (v, now st + ex))\<rparr>"

text \<open>\<^verbatim>\<open>key = f'geocode:{query.lower()}'\<close>\<close>

definition cache_key :: "string \<Rightarrow> string" where
  "cache_key query = ''geocode:'' @ lower query"

definition location_not_found :: error where
  "location_not_found = HTTPException 400 ''Location not found''"

text \<open>
  \<^verbatim>\<open>float(first['lat']), float(first['lon'])\<close>, evaluated left to right.
\<close>

definition parse_first :: "(string \<Rightarrow> pyfloat option) \<Rightarrow> json \<Rightarrow> error + (pyfloat \<times> pyfloat)" where
  "parse_first float_of_str first =
     (case getitem first ''lat'' of
        Inl e \<Rightarrow> Inl e
      | Inr vlat \<Rightarrow>
          (case py_float float_of_str vlat of
             Inl e \<Rightarrow> Inl e
           | Inr lat \<Rightarrow>
               (case getitem first ''lon'' of
                  Inl e \<Rightarrow> Inl e
                | Inr vlon \<Rightarrow>
                    (case py_float float_of_str vlon of
                       Inl e \<Rightarrow> Inl e
                     | Inr lon \<Rightarrow> Inr (lat, lon)))))"

text \<open>
  The provider is the parameter \<open>provider\<close>: the outcome of the GET request for a query
  and of decoding the body, an error when either raises.
\<close>

definition geocode_location ::
  "(string \<Rightarrow> error + json) \<Rightarrow> (string \<Rightarrow> pyfloat option) \<Rightarrow> string \<Rightarrow> geo
     \<Rightarrow> (error + (pyfloat \<times> pyfloat)) \<times> geo" where
  "geocode_location provider float_of_str query st =
     (let key = cache_key query
      in case redis_get st key of
           Some (lat, lon) \<Rightarrow> (Inr (lat, lon), st)
         | None \<Rightarrow>
             (let st1 = st\<lparr>calls := calls st @ [query]\<rparr>
              in case provider query of
                   Inl e \<Rightarrow> (Inl e, st1)
                 | Inr results \<Rightarrow>
                     if \<not> truthy results \<or> \<not> isinstance_list results
                     then (Inl location_not_found, st1)
                     else (case getitem_0 results of
                             Inl e \<Rightarrow> (Inl e, st1)
                           | Inr first \<Rightarrow>
                               (case parse_first float_of_str first of
                                  Inl e \<Rightarrow> (Inl e, st1)
                                | Inr (lat, lon) \<Rightarrow>
                                    (Inr (lat, lon), redis_set st1 key (lat, lon) 86400)))))"

section \<open>The nearby search\<close>

text \<open>
  A row of the nearby query, and an element of the list the endpoint returns: the public
  columns and \<^verbatim>\<open>distance_km\<close>.
\<close>

record nearby_row =
  r_id :: int
  r_name :: string
  r_address :: string
  r_latitude :: pyfloat
  r_longitude :: pyfloat
  distance_km :: real

text \<open>
  The spherical distance in metres is the store's function \<^verbatim>\<open>ST_DistanceSphere\<close>, a
  parameter here. The query filters on it, orders by it and labels a thousandth of it
  \<^verbatim>\<open>distance_km\<close>; rows at equal distance keep the store's order.
\<close>

definition nearby_query ::
  "(geometry \<Rightarrow> geometry \<Rightarrow> real) \<Rightarrow> db \<Rightarrow> pyfloat \<Rightarrow> pyfloat \<Rightarrow> real \<Rightarrow> nearby_row list" where
  "nearby_query ST_DistanceSphere d lat lon radius_km =
     (let point = ST_MakePoint lon lat;
          dist_expr = (\<lambda>p. ST_DistanceSphere (location p) point)
      in map (\<lambda>p. \<lparr>r_id = property_id p,
                    r_name = name p,
                    r_address = address p,
                    r_latitude = latitude p,
                    r_longitude = longitude p,
                    distance_km = dist_expr p / 1000\<rparr>)
           (sort_key dist_expr
              (filter (\<lambda>p. dist_expr p \<le> radius_km * 1000) (rows d))))"

definition get_nearby_properties ::
  "(real \<Rightarrow> bool) \<Rightarrow> (geometry \<Rightarrow> geometry \<Rightarrow> real) \<Rightarrow> db \<Rightarrow> pyfloat \<Rightarrow> pyfloat \<Rightarrow> real \<Rightarrow> nearby_row list" where
  "get_nearby_properties ties_up ST_DistanceSphere d lat lon radius_km =
     map (\<lambda>r. r\<lparr>distance_km := py_round ties_up (distance_km r) 2\<rparr>)
       (nearby_query ST_DistanceSphere d lat lon radius_km)"

text \<open>The default of the parameter \<^verbatim>\<open>radius_km\<close>.\<close>

definition radius_km_default :: real where
  "radius_km_default = 50"

text \<open>
  The endpoint \<^verbatim>\<open>GET /properties/get/nearby\<close>: its only input is the location text, and it
  calls \<^verbatim>\<open>get_nearby_properties\<close> without a radius.
\<close>

definition nearby ::
  "(string \<Rightarrow> error + json) \<Rightarrow> (string \<Rightarrow> pyfloat option) \<Rightarrow> (real \<Rightarrow> bool)
     \<Rightarrow> (geometry \<Rightarrow> geometry \<Rightarrow> real) \<Rightarrow> string \<Rightarrow> db \<Rightarrow> geo
     \<Rightarrow> (error + nearby_row list) \<times> geo" where
  "nearby provider float_of_str ties_up ST_DistanceSphere location_text d st =
     (case geocode_location provider float_of_str location_text st of
        (Inl e, st') \<Rightarrow> (Inl e, st')
      | (Inr (lat, lon), st') \<Rightarrow>
          (Inr (get_nearby_properties ties_up ST_DistanceSphere d lat lon radius_km_default),
           st'))"

section \<open>The location invariant\<close>

text \<open>The derived column agrees with the coordinate columns: the point (longitude, latitude) in SRID 4326.\<close>

definition location_consistent :: "Property \<Rightarrow> bool" where
  "location_consistent p =
     (location p = \<lparr>geom_x = longitude p, geom_y = latitude p, srid = 4326\<rparr>)"

section \<open>Columns of a result\<close>

definition public_columns :: "Property \<Rightarrow> int \<times> string \<times> string \<times> pyfloat \<times> pyfloat" where
  "public_columns p = (property_id p, name p, address p, latitude p, longitude p)"

definition row_columns :: "nearby_row \<Rightarrow> int \<times> string \<times> string \<times> pyfloat \<times> pyfloat" where
  "row_columns r = (r_id r, r_name r, r_address r, r_latitude r, r_longitude r)"

definition annotated :: "Property \<Rightarrow> real \<Rightarrow> nearby_row" where
  "annotated p km =
     \<lparr>r_id = property_id p, r_name = name p, r_address = address p,
      r_latitude = latitude p, r_longitude = longitude p, distance_km = km\<rparr>"

section \<open>Sample data\<close>

definition sample_property :: Property where
  "sample_property =
     \<lparr>property_id = 1, name = ''Lodge'', address = ''1 Main St'',
      latitude = Finite 10, longitude = Finite 20,
      location = \<lparr>geom_x = Finite 20, geom_y = Finite 10, srid = 4326\<rparr>\<rparr>"

definition sample_db :: db where
  "sample_db = \<lparr>rows = [sample_property], next_id = 2\<rparr>"

definition sample_input :: PropertyCreate where
  "sample_input = \<lparr>pc_name = ''Cabin'', pc_address = ''2 Hill Rd'',
                    pc_latitude = Finite 30, pc_longitude = Finite 40\<rparr>"

text \<open>A provider that knows one place, with two candidates for it, and a parser for its numbers.\<close>

definition sample_float_of_str :: "string \<Rightarrow> pyfloat option" where
  "sample_float_of_str s =
     (if s = ''48'' then Some (Finite 48)
      else if s = ''2'' then Some (Finite 2)
      else None)"

definition sample_provider :: "string \<Rightarrow> error + json" where
  "sample_provider q =
     (if lower q = ''paris''
      then Inr (JList [JObj [(''lat'', JStr ''48''), (''lon'', JStr ''2'')],
                       JObj [(''lat'', JStr ''33''), (''lon'', JStr ''-95'')]])
      else Inr (JList []))"

definition sample_geo :: geo where
  "sample_geo = \<lparr>cache = Map.empty, now = 1000, calls = []\<rparr>"

definition sample_geo_after :: geo where
  "sample_geo_after =
     \<lparr>cache = Map.empty(cache_key ''Paris'' \<mapsto> ((Finite 48, Finite 2), 87400)),
      now = 1000, calls = [''Paris'']\<rparr>"

text \<open>
  A stand-in for the store's distance in the sample computations: one unit of longitude or
  latitude is 1000 metres. The theorems hold for every distance function.
\<close>

fun coord :: "pyfloat \<Rightarrow> real" where
  "coord (Finite x) = x"
| "coord _ = 0"

definition sample_sphere :: "geometry \<Rightarrow> geometry \<Rightarrow> real" where
  "sample_sphere a b =
     1000 * (\<bar>coord (geom_x a) - coord (geom_x b)\<bar> + \<bar>coord (geom_y a) - coord (geom_y b)\<bar>)"

text \<open>
  A table of four properties on the parallel of the sample point (48, 2), at 5, 1.2345, 50
  and 200 units of longitude from it, and the shape of a returned row.
\<close>

definition place :: "int \<Rightarrow> string \<Rightarrow> real \<Rightarrow> Property" where
  "place i n lon =
     \<lparr>property_id = i, name = n, address = ''Rue'', latitude = Finite 48,
      longitude = Finite lon, location = \<lparr>geom_x = Finite lon, geom_y = Finite 48, srid = 4326\<rparr>\<rparr>"

definition sample_table :: db where
  "sample_table =
     \<lparr>rows = [place 1 ''A'' 7, place 2 ''B'' (32345 / 10000), place 3 ''C'' 52,
              place 4 ''D'' 202],
      next_id = 5\<rparr>"

text \<open>
  The direction at the halfway values of the samples: 0.375 is a double and goes to its even
  neighbour 0.38, every other one is taken down, as 1.015 is.
\<close>

definition sample_ties_up :: "real \<Rightarrow> bool" where
  "sample_ties_up x = (x = 375 / 1000)"

text \<open>
  A second table, at 1015, 5678, 375, 1234.5, 50000 and 200000 metres from the sample point:
  two distances at a halfway value, one that rounds up and one that rounds down.
\<close>

definition sample_table_ties :: db where
  "sample_table_ties =
     \<lparr>rows = [place 1 ''A'' (3015 / 1000), place 2 ''B'' (7678 / 1000),
              place 3 ''C'' (2375 / 1000), place 4 ''D'' (32345 / 10000),
              place 5 ''E'' 52, place 6 ''F'' 202],
      next_id = 7\<rparr>"

definition found :: "int \<Rightarrow> string \<Rightarrow> real \<Rightarrow> real \<Rightarrow> nearby_row" where
  "found i n lon km =
     \<lparr>r_id = i, r_name = n, r_address = ''Rue'', r_latitude = Finite 48,
      r_longitude = Finite lon, distance_km = km\<rparr>"

section \<open>Sample computations\<close>

lemma sample_lower: "lower ''Paris'' = ''paris''" "lower ''PARIS'' = ''paris''"
  "lower ''atlantis'' = ''atlantis''"
  by (simp_all add: lower_def lower_char_def)

lemma sample_first_call:
  "geocode_location sample_provider sample_float_of_str ''Paris'' sample_geo
     = (Inr (Finite 48, Finite 2), sample_geo_after)"
  by (simp add: geocode_location_def Let_def redis_get_def redis_set_def sample_geo_def
        sample_geo_after_def sample_provider_def sample_lower parse_first_def
        sample_float_of_str_def)

lemma sample_miss: "redis_get sample_geo (cache_key ''Paris'') = None"
  "redis_get sample_geo (cache_key ''atlantis'') = None"
  by (simp_all add: redis_get_def sample_geo_def)

section \<open>The repository operations\<close>

lemma query_first_absent:
  "(\<forall>p \<in> set (rows d). property_id p \<noteq> pid) \<Longrightarrow> query_first d pid = None"
  by (simp add: query_first_def find_None_iff)

text \<open>
  C6, as the code has it: \<^verbatim>\<open>create_property\<close> has no finiteness check. Whatever floats the
  request schema hands over, NaN and the infinities included, it persists exactly one new
  record with the store-assigned id, the given latitude and longitude and the point built
  from them, and it never rejects.
\<close>

theorem create_keeps_any_float:
  "\<exists>r. create_property pc d = (Inr r, d\<lparr>rows := rows d @ [r], next_id := next_id d + 1\<rparr>)
       \<and> property_id r = next_id d
       \<and> latitude r = pc_latitude pc \<and> longitude r = pc_longitude pc
       \<and> location r = WKTElement_POINT (pc_longitude pc) (pc_latitude pc) 4326"
  by (simp add: create_property_def Let_def)

text \<open>
  C6 as stated fails: a request with latitude NaN and longitude infinity is not rejected,
  and its record is in the table afterwards.
\<close>

theorem create_nonfinite_counterexample:
  "create_property \<lparr>pc_name = ''Void'', pc_address = ''Nowhere'',
                    pc_latitude = NaN, pc_longitude = PosInf\<rparr> \<lparr>rows = [], next_id = 1\<rparr>
   = (Inr \<lparr>property_id = 1, name = ''Void'', address = ''Nowhere'', latitude = NaN,
           longitude = PosInf, location = \<lparr>geom_x = PosInf, geom_y = NaN, srid = 4326\<rparr>\<rparr>,
      \<lparr>rows = [\<lparr>property_id = 1, name = ''Void'', address = ''Nowhere'', latitude = NaN,
           longitude = PosInf, location = \<lparr>geom_x = PosInf, geom_y = NaN, srid = 4326\<rparr>\<rparr>],
       next_id = 2\<rparr>)"
  by (simp add: create_property_def Let_def WKTElement_POINT_def)

text \<open>
  C7: when no row has the id, \<^verbatim>\<open>get_property\<close>, \<^verbatim>\<open>update_property\<close> and
  \<^verbatim>\<open>delete_property\<close> each fail with the 404 \<^verbatim>\<open>HTTPException\<close> and with nothing else, and
  the table is as it was.
\<close>

theorem missing_id_not_found:
  assumes "\<forall>p \<in> set (rows d). property_id p \<noteq> pid"
  shows "get_property pid d = (Inl (HTTPException 404 ''Property not found''), d)
       \<and> update_property pid prop_in d = (Inl (HTTPException 404 ''Property not found''), d)
       \<and> delete_property pid d = (Inl (HTTPException 404 ''Property not found''), d)"
  using query_first_absent [OF assms]
  by (simp add: get_property_def update_property_def delete_property_def not_found_def)

theorem missing_id_not_found_witness:
  "7 \<notin> property_id ` set (rows sample_db)
   \<and> get_property 7 sample_db = (Inl (HTTPException 404 ''Property not found''), sample_db)
   \<and> update_property 7 sample_input sample_db
        = (Inl (HTTPException 404 ''Property not found''), sample_db)
   \<and> delete_property 7 sample_db = (Inl (HTTPException 404 ''Property not found''), sample_db)"
proof -
  have h: "\<forall>p \<in> set (rows sample_db). property_id p \<noteq> 7"
    by (simp add: sample_db_def sample_property_def)
  have "7 \<notin> property_id ` set (rows sample_db)"
    by (simp add: sample_db_def sample_property_def)
  then show ?thesis
    using missing_id_not_found [OF h, of sample_input] by simp
qed

lemma create_rows:
  "\<forall>p' \<in> set (rows (snd (create_property pc d))). p' \<in> set (rows d) \<or> location_consistent p'"
  by (auto simp: create_property_def Let_def location_consistent_def WKTElement_POINT_def)

lemma update_rows:
  "\<forall>p' \<in> set (rows (snd (update_property pid prop_in d))).
     p' \<in> set (rows d) \<or> location_consistent p'"
  by (auto simp: update_property_def Let_def location_consistent_def WKTElement_POINT_def
           split: option.splits)

lemma delete_rows:
  "\<forall>p' \<in> set (rows (snd (delete_property pid d))). p' \<in> set (rows d) \<or> location_consistent p'"
  by (auto simp: delete_property_def split: option.splits)

lemma read_rows:
  "snd (get_property pid d) = d" "snd (list_properties d) = d"
  by (auto simp: get_property_def list_properties_def split: option.splits)

text \<open>
  C8: after any of the five repository operations, every row is either a row that was
  already there, untouched, or a row whose location is the point (longitude, latitude) in
  SRID 4326 of that same row: create and update set the three columns together and nothing
  sets location alone. Hence a table in which location agrees with the coordinates stays so.
\<close>

theorem location_invariant:
  assumes "d' \<in> {snd (create_property pc d), snd (update_property pid prop_in d),
                  snd (delete_property pid d), snd (get_property pid d),
                  snd (list_properties d)}"
  shows "(\<forall>p' \<in> set (rows d'). p' \<in> set (rows d) \<or> location_consistent p')
       \<and> ((\<forall>p \<in> set (rows d). location_consistent p)
            \<longrightarrow> (\<forall>p \<in> set (rows d'). location_consistent p))"
proof -
  have "\<forall>p' \<in> set (rows d'). p' \<in> set (rows d) \<or> location_consistent p'"
    using assms create_rows [of _ d] update_rows [of pid prop_in d] delete_rows [of pid d]
      read_rows
    by auto
  then show ?thesis by blast
qed

theorem location_invariant_witness:
  "snd (update_property 1 sample_input sample_db)
     \<in> {snd (create_property sample_input sample_db),
        snd (update_property 1 sample_input sample_db),
        snd (delete_property 1 sample_db), snd (get_property 1 sample_db),
        snd (list_properties sample_db)}
   \<and> list_all location_consistent (rows sample_db)
   \<and> list_all location_consistent (rows (snd (update_property 1 sample_input sample_db)))
   \<and> rows (snd (update_property 1 sample_input sample_db))
       = [\<lparr>property_id = 1, name = ''Cabin'', address = ''2 Hill Rd'', latitude = Finite 30,
           longitude = Finite 40,
           location = \<lparr>geom_x = Finite 40, geom_y = Finite 30, srid = 4326\<rparr>\<rparr>]"
proof -
  have m: "snd (update_property 1 sample_input sample_db)
     \<in> {snd (create_property sample_input sample_db),
        snd (update_property 1 sample_input sample_db),
        snd (delete_property 1 sample_db), snd (get_property 1 sample_db),
        snd (list_properties sample_db)}"
    by simp
  have inv: "\<forall>p \<in> set (rows sample_db). location_consistent p"
    by (simp add: sample_db_def sample_property_def location_consistent_def)
  have r: "rows (snd (update_property 1 sample_input sample_db))
       = [\<lparr>property_id = 1, name = ''Cabin'', address = ''2 Hill Rd'', latitude = Finite 30,
           longitude = Finite 40,
           location = \<lparr>geom_x = Finite 40, geom_y = Finite 30, srid = 4326\<rparr>\<rparr>]"
    by (simp add: update_property_def query_first_def sample_db_def sample_property_def
          sample_input_def WKTElement_POINT_def Let_def)
  from location_invariant [OF m] inv
  have "\<forall>p \<in> set (rows (snd (update_property 1 sample_input sample_db))). location_consistent p"
    by blast
  with m inv r show ?thesis
    unfolding list_all_iff by blast
qed

section \<open>Geocoding and its cache\<close>






text \<open>
  C4, as the code has it: for an uncached query, a decoded response that is falsy (an empty
  list among others) or is not a list makes \<^verbatim>\<open>geocode_location\<close> fail with the 400
  \<^verbatim>\<open>HTTPException\<close> "Location not found", and with nothing else.
\<close>

theorem empty_or_non_list_not_found:
  assumes "redis_get st (cache_key q) = None"
      and "provider q = Inr results"
      and "\<not> truthy results \<or> \<not> isinstance_list results"
  shows "fst (geocode_location provider f q st) = Inl (HTTPException 400 ''Location not found'')"
  using assms by (auto simp: geocode_location_def Let_def location_not_found_def)

theorem empty_or_non_list_not_found_witness:
  "redis_get sample_geo (cache_key ''atlantis'') = None
   \<and> sample_provider ''atlantis'' = Inr (JList [])
   \<and> \<not> truthy (JList [])
   \<and> fst (geocode_location sample_provider sample_float_of_str ''atlantis'' sample_geo)
       = Inl (HTTPException 400 ''Location not found'')"
proof -
  have p: "sample_provider ''atlantis'' = Inr (JList [])"
    by (simp add: sample_provider_def sample_lower)
  have t: "\<not> truthy (JList []) \<or> \<not> isinstance_list (JList [])"
    by simp
  show ?thesis
    using empty_or_non_list_not_found [where st = sample_geo and q = "''atlantis''"
        and provider = sample_provider and results = "JList []" and f = sample_float_of_str]
      sample_miss(2) p t
    by simp
qed

text \<open>
  C4 as stated fails: a non-empty list whose first element has no \<^verbatim>\<open>lat\<close> passes the guard,
  and the call fails with \<^verbatim>\<open>KeyError\<close>, not with "Location not found".
\<close>

theorem malformed_element_counterexample:
  "fst (geocode_location (\<lambda>q. Inr (JList [JObj []])) (\<lambda>s. None) ''atlantis''
          \<lparr>cache = Map.empty, now = 0, calls = []\<rparr>)
   = Inl (KeyError ''lat'')"
  by (simp add: geocode_location_def Let_def redis_get_def parse_first_def)

lemma geocode_error_cache:
  "fst (geocode_location provider f q st) = Inl e
   \<Longrightarrow> cache (snd (geocode_location provider f q st)) = cache st"
  by (auto simp: geocode_location_def Let_def
           split: option.splits sum.splits if_splits json.splits list.splits prod.splits)

text \<open>
  C5: when the nearby search fails, with "Location not found" or with any other error, the
  cache afterwards is the cache before.
\<close>

theorem failed_nearby_leaves_cache:
  assumes "fst (nearby provider f ties_up sphere q d st) = Inl e"
  shows "cache (snd (nearby provider f ties_up sphere q d st)) = cache st"
proof (cases "geocode_location provider f q st")
  case (Pair r st')
  with assms obtain e' where "r = Inl e'"
    by (cases r) (auto simp: nearby_def split: prod.splits)
  with Pair geocode_error_cache [of provider f q st e'] show ?thesis
    by (simp add: nearby_def)
qed

theorem failed_nearby_leaves_cache_witness:
  "fst (nearby sample_provider sample_float_of_str sample_ties_up sample_sphere ''atlantis'' sample_table
          sample_geo)
     = Inl (HTTPException 400 ''Location not found'')
   \<and> cache (snd (nearby sample_provider sample_float_of_str sample_ties_up sample_sphere ''atlantis''
                   sample_table sample_geo))
       = cache sample_geo"
proof -
  have e: "fst (nearby sample_provider sample_float_of_str sample_ties_up sample_sphere ''atlantis''
             sample_table sample_geo)
     = Inl (HTTPException 400 ''Location not found'')"
    by (simp add: nearby_def geocode_location_def Let_def sample_miss(2) sample_provider_def
          sample_lower location_not_found_def)
  show ?thesis
    using failed_nearby_leaves_cache [OF e] e by simp
qed

text \<open>
  C9: for an uncached query whose response is a non-empty list, the outcome is that of
  \<^verbatim>\<open>float(first['lat']), float(first['lon'])\<close> on the first element, whatever the rest of the
  list holds: when both parse, the call returns exactly that pair.
\<close>

theorem first_match_policy:
  assumes "redis_get st (cache_key q) = None"
      and "provider q = Inr (JList (first # rest))"
  shows "fst (geocode_location provider f q st) = parse_first f first
       \<and> (\<forall>a b lat lon. getitem first ''lat'' = Inr a \<and> py_float f a = Inr lat
              \<and> getitem first ''lon'' = Inr b \<and> py_float f b = Inr lon
            \<longrightarrow> fst (geocode_location provider f q st) = Inr (lat, lon))"
proof -
  have "fst (geocode_location provider f q st) = parse_first f first"
    using assms by (auto simp: geocode_location_def Let_def split: sum.splits)
  then show ?thesis by (auto simp: parse_first_def)
qed

theorem first_match_policy_witness:
  "redis_get sample_geo (cache_key ''Paris'') = None
   \<and> sample_provider ''Paris''
       = Inr (JList [JObj [(''lat'', JStr ''48''), (''lon'', JStr ''2'')],
                     JObj [(''lat'', JStr ''33''), (''lon'', JStr ''-95'')]])
   \<and> fst (geocode_location sample_provider sample_float_of_str ''Paris'' sample_geo)
       = Inr (Finite 48, Finite 2)"
proof -
  have p: "sample_provider ''Paris''
       = Inr (JList (JObj [(''lat'', JStr ''48''), (''lon'', JStr ''2'')]
                     # [JObj [(''lat'', JStr ''33''), (''lon'', JStr ''-95'')]]))"
    by (simp add: sample_provider_def sample_lower)
  have "parse_first sample_float_of_str (JObj [(''lat'', JStr ''48''), (''lon'', JStr ''2'')])
        = Inr (Finite 48, Finite 2)"
    by (simp add: parse_first_def sample_float_of_str_def)
  then show ?thesis
    using first_match_policy [where st = sample_geo and q = "''Paris''"
        and provider = sample_provider and f = sample_float_of_str
        and first = "JObj [(''lat'', JStr ''48''), (''lon'', JStr ''2'')]"
        and rest = "[JObj [(''lat'', JStr ''33''), (''lon'', JStr ''-95'')]]"]
      sample_miss(1) p
    by simp
qed

section \<open>The radius query\<close>

lemma round_nearest_bounds:
  "\<lfloor>y\<rfloor> \<le> round_nearest up y" "round_nearest up y \<le> \<lfloor>y\<rfloor> + 1"
  by (simp_all add: round_nearest_def Let_def)

lemma round_nearest_less:
  assumes "x < y"
  shows "round_nearest a x \<le> round_nearest b y"
proof (cases "\<lfloor>x\<rfloor> = \<lfloor>y\<rfloor>")
  case True
  then have "x - of_int \<lfloor>x\<rfloor> < y - of_int \<lfloor>y\<rfloor>"
    using assms by simp
  then show ?thesis
    using True by (auto simp: round_nearest_def Let_def)
next
  case False
  then have "\<lfloor>x\<rfloor> < \<lfloor>y\<rfloor>"
    using floor_mono [of x y] assms by simp
  then have "round_nearest a x \<le> \<lfloor>y\<rfloor>"
    using round_nearest_bounds(2) [of a x] by simp
  then show ?thesis
    using round_nearest_bounds(1) [of y b] by simp
qed

lemma py_round_mono:
  assumes "x \<le> y"
  shows "py_round ties_up x nd \<le> py_round ties_up y nd"
proof (cases "x = y")
  case True
  then show ?thesis by simp
next
  case False
  with assms have "x * 10 ^ nd < y * 10 ^ nd"
    by simp
  from round_nearest_less [OF this, of "ties_up x" "ties_up y"] show ?thesis
    by (simp add: py_round_def divide_right_mono)
qed

lemma round_nearest_close: "\<bar>of_int (round_nearest up y) - y\<bar> \<le> 1 / 2"
proof -
  have "of_int \<lfloor>y\<rfloor> \<le> y" "y < of_int \<lfloor>y\<rfloor> + 1"
    by linarith+
  then show ?thesis
    by (auto simp: round_nearest_def Let_def abs_le_iff)
qed

lemma py_round_close: "\<bar>py_round ties_up x 2 - x\<bar> \<le> 1 / 200"
proof -
  have "\<bar>of_int (round_nearest (ties_up x) (x * 100)) - x * 100\<bar> \<le> 1 / 2"
    by (rule round_nearest_close)
  then show ?thesis
    by (simp add: py_round_def abs_le_iff field_simps)
qed

lemma py_round_hundredth: "\<exists>k::int. py_round ties_up x 2 = of_int k / 100"
  by (auto simp: py_round_def)

lemma sorted_map_nondecreasing:
  fixes g :: "real \<Rightarrow> real"
  shows "sorted xs \<Longrightarrow> (\<And>x y. x \<le> y \<Longrightarrow> g x \<le> g y) \<Longrightarrow> sorted (map g xs)"
  by (induction xs) auto

lemma annotated_columns:
  "row_columns (annotated p km) = public_columns p" "distance_km (annotated p km) = km"
  by (simp_all add: annotated_def row_columns_def public_columns_def)

lemma get_nearby_as_map:
  "get_nearby_properties ties_up sphere d lat lon radius_km =
     map (\<lambda>p. annotated p (py_round ties_up (sphere (location p) (ST_MakePoint lon lat) / 1000) 2))
       (sort_key (\<lambda>p. sphere (location p) (ST_MakePoint lon lat))
          (filter (\<lambda>p. sphere (location p) (ST_MakePoint lon lat) \<le> radius_km * 1000) (rows d)))"
  by (simp add: get_nearby_properties_def nearby_query_def Let_def annotated_def)

lemma nearby_columns_mset:
  "mset (map row_columns (get_nearby_properties ties_up sphere d lat lon radius_km)) =
     image_mset public_columns
       (filter_mset (\<lambda>p. sphere (location p) (ST_MakePoint lon lat) \<le> radius_km * 1000)
          (mset (rows d)))"
proof -
  have "row_columns \<circ> (\<lambda>p. annotated p (py_round ties_up (sphere (location p) (ST_MakePoint lon lat) / 1000) 2))
        = public_columns"
    by (rule ext) (simp add: row_columns_def annotated_def public_columns_def)
  then show ?thesis
    unfolding get_nearby_as_map map_map
    by simp
qed

lemma sample_nearby_50:
  "get_nearby_properties sample_ties_up sample_sphere sample_table (Finite 48) (Finite 2) 50
     = [found 2 ''B'' (32345 / 10000) (123 / 100), found 1 ''A'' 7 5, found 3 ''C'' 52 50]"
  unfolding get_nearby_as_map sample_table_def
  by (simp add: sample_sphere_def ST_MakePoint_def annotated_def found_def place_def
        py_round_def round_nearest_def Let_def)

lemma sample_nearby_ties:
  "get_nearby_properties sample_ties_up sample_sphere sample_table_ties (Finite 48) (Finite 2) 100
     = [found 3 ''C'' (2375 / 1000) (38 / 100), found 1 ''A'' (3015 / 1000) (101 / 100),
        found 4 ''D'' (32345 / 10000) (123 / 100), found 2 ''B'' (7678 / 1000) (568 / 100),
        found 5 ''E'' 52 50]"
  unfolding get_nearby_as_map sample_table_ties_def
  by (simp add: sample_sphere_def ST_MakePoint_def annotated_def found_def place_def
        py_round_def round_nearest_def sample_ties_up_def Let_def)

lemma sample_boundary:
  "sample_sphere (location (place 3 ''C'' 52)) (ST_MakePoint (Finite 2) (Finite 48)) = 50 * 1000"
  by (simp add: sample_sphere_def ST_MakePoint_def place_def)

text \<open>
  C1: the rows returned by \<^verbatim>\<open>get_nearby_properties\<close> are, with their public columns and
  counted with multiplicity, exactly the stored properties whose spherical distance to the
  point is at most \<^verbatim>\<open>radius_km * 1000\<close> metres; a property at exactly that distance is in.
\<close>

theorem radius_filter:
  "mset (map row_columns (get_nearby_properties ties_up sphere d lat lon radius_km)) =
     image_mset public_columns
       (filter_mset (\<lambda>p. sphere (location p) (ST_MakePoint lon lat) \<le> radius_km * 1000)
          (mset (rows d)))
   \<and> row_columns ` set (get_nearby_properties ties_up sphere d lat lon radius_km) =
       public_columns `
         {p \<in> set (rows d). sphere (location p) (ST_MakePoint lon lat) \<le> radius_km * 1000}"
proof -
  note m = nearby_columns_mset [of ties_up sphere d lat lon radius_km]
  have "set_mset (mset (map row_columns (get_nearby_properties ties_up sphere d lat lon radius_km)))
        = set_mset (image_mset public_columns
       (filter_mset (\<lambda>p. sphere (location p) (ST_MakePoint lon lat) \<le> radius_km * 1000)
          (mset (rows d))))"
    by (simp only: m)
  then have "row_columns ` set (get_nearby_properties ties_up sphere d lat lon radius_km) =
       public_columns `
         {p \<in> set (rows d). sphere (location p) (ST_MakePoint lon lat) \<le> radius_km * 1000}"
    by simp
  with m show ?thesis by blast
qed

theorem radius_filter_witness:
  "sample_sphere (location (place 3 ''C'' 52)) (ST_MakePoint (Finite 2) (Finite 48)) = 50 * 1000
   \<and> map r_name (get_nearby_properties sample_ties_up sample_sphere sample_table (Finite 48) (Finite 2) 50)
       = [''B'', ''A'', ''C'']
   \<and> row_columns ` set (get_nearby_properties sample_ties_up sample_sphere sample_table (Finite 48) (Finite 2) 50)
       = public_columns `
           {p \<in> set (rows sample_table).
              sample_sphere (location p) (ST_MakePoint (Finite 2) (Finite 48)) \<le> 50 * 1000}"
proof -
  have "map r_name (get_nearby_properties sample_ties_up sample_sphere sample_table (Finite 48) (Finite 2) 50)
       = [''B'', ''A'', ''C'']"
    by (simp add: sample_nearby_50 found_def)
  then show ?thesis
    using radius_filter [where ties_up = sample_ties_up and sphere = sample_sphere and d = sample_table
        and lat = "Finite 48" and lon = "Finite 2" and radius_km = 50] sample_boundary
    by blast
qed

text \<open>
  C2: the result lists the properties within the radius in ascending order of their
  unrounded distance. Row by row, it carries the public columns of the property, and its
  \<^verbatim>\<open>distance_km\<close> is a whole number of hundredths at most half a hundredth away from the
  distance in metres divided by 1000: that quotient rounded to 2 places, whatever the direction
  at a halfway value. The order is fixed before the rounding, and the rounded values are
  ascending too.
\<close>

theorem nearby_sorted_annotated:
  "\<exists>ps. mset ps = filter_mset (\<lambda>p. sphere (location p) (ST_MakePoint lon lat) \<le> radius_km * 1000)
                     (mset (rows d))
      \<and> sorted (map (\<lambda>p. sphere (location p) (ST_MakePoint lon lat)) ps)
      \<and> get_nearby_properties ties_up sphere d lat lon radius_km =
          map (\<lambda>p. annotated p
                 (py_round ties_up (sphere (location p) (ST_MakePoint lon lat) / 1000) 2)) ps
      \<and> list_all2
          (\<lambda>r p. row_columns r = public_columns p
                 \<and> (\<exists>k::int. distance_km r = of_int k / 100)
                 \<and> \<bar>distance_km r - sphere (location p) (ST_MakePoint lon lat) / 1000\<bar> \<le> 1 / 200)
          (get_nearby_properties ties_up sphere d lat lon radius_km) ps
      \<and> sorted (map distance_km (get_nearby_properties ties_up sphere d lat lon radius_km))"
proof -
  let ?D = "\<lambda>p. sphere (location p) (ST_MakePoint lon lat)"
  let ?ps = "sort_key ?D (filter (\<lambda>p. ?D p \<le> radius_km * 1000) (rows d))"
  let ?res = "get_nearby_properties ties_up sphere d lat lon radius_km"
  have a: "mset ?ps = filter_mset (\<lambda>p. ?D p \<le> radius_km * 1000) (mset (rows d))"
    by simp
  have b: "sorted (map ?D ?ps)"
    by simp
  have c: "?res = map (\<lambda>p. annotated p (py_round ties_up (?D p / 1000) 2)) ?ps"
    by (rule get_nearby_as_map)
  have e: "list_all2
          (\<lambda>r p. row_columns r = public_columns p
                 \<and> (\<exists>k::int. distance_km r = of_int k / 100)
                 \<and> \<bar>distance_km r - ?D p / 1000\<bar> \<le> 1 / 200) ?res ?ps"
    unfolding c list_all2_map1
    by (rule list_all2_refl)
       (simp only: annotated_columns py_round_close py_round_hundredth simp_thms)
  have "map distance_km ?res = map (\<lambda>x. py_round ties_up (x / 1000) 2) (map ?D ?ps)"
    unfolding c by (simp add: annotated_def comp_def)
  moreover have "sorted (map (\<lambda>x. py_round ties_up (x / 1000) 2) (map ?D ?ps))"
    using b by (rule sorted_map_nondecreasing) (simp add: py_round_mono divide_right_mono)
  ultimately have "sorted (map distance_km ?res)"
    by simp
  with a b c e show ?thesis by blast
qed

theorem nearby_sorted_annotated_witness:
  "get_nearby_properties sample_ties_up sample_sphere sample_table_ties (Finite 48) (Finite 2) 100
     = [found 3 ''C'' (2375 / 1000) (38 / 100), found 1 ''A'' (3015 / 1000) (101 / 100),
        found 4 ''D'' (32345 / 10000) (123 / 100), found 2 ''B'' (7678 / 1000) (568 / 100),
        found 5 ''E'' 52 50]
   \<and> sorted (map distance_km
        (get_nearby_properties sample_ties_up sample_sphere sample_table_ties (Finite 48)
           (Finite 2) 100))"
proof -
  from nearby_sorted_annotated [where ties_up = sample_ties_up and sphere = sample_sphere
      and d = sample_table_ties and lat = "Finite 48" and lon = "Finite 2" and radius_km = 100]
  have "sorted (map distance_km
      (get_nearby_properties sample_ties_up sample_sphere sample_table_ties (Finite 48)
         (Finite 2) 100))"
    by blast
  with sample_nearby_ties show ?thesis by blast
qed

text \<open>
  C10: the endpoint takes the location text and no radius. Whenever it succeeds, its result
  is \<^verbatim>\<open>get_nearby_properties\<close> at the geocoded point with radius 50: the stored properties
  within 50 * 1000 metres.
\<close>

theorem nearby_uses_default_radius:
  assumes "nearby provider f ties_up sphere q d st = (Inr props, st')"
  shows "\<exists>lat lon. geocode_location provider f q st = (Inr (lat, lon), st')
           \<and> props = get_nearby_properties ties_up sphere d lat lon 50
           \<and> mset (map row_columns props) =
               image_mset public_columns
                 (filter_mset (\<lambda>p. sphere (location p) (ST_MakePoint lon lat) \<le> 50 * 1000)
                    (mset (rows d)))"
proof -
  from assms obtain lat lon where
    g: "geocode_location provider f q st = (Inr (lat, lon), st')"
    and p: "props = get_nearby_properties ties_up sphere d lat lon 50"
    by (auto simp: nearby_def radius_km_default_def split: prod.splits sum.splits)
  show ?thesis
    using g p nearby_columns_mset [of ties_up sphere d lat lon 50] by blast
qed

theorem nearby_uses_default_radius_witness:
  "nearby sample_provider sample_float_of_str sample_ties_up sample_sphere ''Paris'' sample_table sample_geo
     = (Inr [found 2 ''B'' (32345 / 10000) (123 / 100), found 1 ''A'' 7 5, found 3 ''C'' 52 50],
        sample_geo_after)
   \<and> mset (map row_columns
        [found 2 ''B'' (32345 / 10000) (123 / 100), found 1 ''A'' 7 5, found 3 ''C'' 52 50])
       = image_mset public_columns
           (filter_mset
              (\<lambda>p. sample_sphere (location p) (ST_MakePoint (Finite 2) (Finite 48)) \<le> 50 * 1000)
              (mset (rows sample_table)))"
proof -
  let ?props = "[found 2 ''B'' (32345 / 10000) (123 / 100), found 1 ''A'' 7 5, found 3 ''C'' 52 50]"
  have n: "nearby sample_provider sample_float_of_str sample_ties_up sample_sphere ''Paris'' sample_table
             sample_geo = (Inr ?props, sample_geo_after)"
    by (simp add: nearby_def sample_first_call radius_km_default_def sample_nearby_50)
  from nearby_uses_default_radius [OF n] obtain lat lon where
    g: "geocode_location sample_provider sample_float_of_str ''Paris'' sample_geo
          = (Inr (lat, lon), sample_geo_after)"
    and m: "mset (map row_columns ?props)
       = image_mset public_columns
           (filter_mset (\<lambda>p. sample_sphere (location p) (ST_MakePoint lon lat) \<le> 50 * 1000)
              (mset (rows sample_table)))"
    by blast
  from g sample_first_call have "lat = Finite 48" "lon = Finite 2"
    by simp_all
  with m n show ?thesis by simp
qed

end
